theory Spec2Isabelle
  imports Complex_Main
begin

unbundle bit_operations_syntax

section \<open>Conventions of the embedding\<close>

text \<open>
  The development embeds the orchestration and resilience layer of the multi-LLM agent:
  \<^verbatim>\<open>llms/errors.py\<close>, \<^verbatim>\<open>config.py\<close>, \<^verbatim>\<open>llms/base.py\<close>, \<^verbatim>\<open>agent.py\<close>,
  \<^verbatim>\<open>llms/rate_limiter.py\<close>, \<^verbatim>\<open>llms/planner.py\<close>, \<^verbatim>\<open>llms/cache_sync.py\<close> and
  \<^verbatim>\<open>llms/cache_control.py\<close>.

  \<^item> A Python \<^verbatim>\<open>str\<close> is a \<open>string\<close>; a \<open>char\<close> stands for the code point of the same
    number (U+0000 to U+00FF), and the character tests below follow Python on that range.
  \<^item> A Python \<^verbatim>\<open>float\<close> is a \<open>real\<close>: the source only compares, adds and subtracts them.
  \<^item> A raised exception is a value \<open>Exn cls msg status body\<close>; a function that may raise
    returns \<open>exn + 'a\<close> (or \<open>exn option\<close> when it returns nothing).
  \<^item> Mutation of an object is explicit state passing.
  \<^item> A leading underscore of a Python name is dropped (\<^verbatim>\<open>_parse_plan\<close> is \<open>parse_plan\<close>);
    a method that shares its name with another class's method carries the class name.
\<close>

section \<open>Error taxonomy (llms/errors.py)\<close>

text \<open>
  The exception classes of \<^verbatim>\<open>errors.py\<close>, and the classes of Python and its libraries that
  the embedded code raises or catches. \<open>ValidationError\<close> is the class of \<^verbatim>\<open>errors.py\<close>
  (imported in \<^verbatim>\<open>base.py\<close> as \<^verbatim>\<open>LLMValidationError\<close>); \<open>PydanticValidationError\<close> is
  pydantic's class of the same name.
\<close>

datatype error_class =
    LLMError
  | ValidationError
  | RateLimitError
  | APIError
  | CacheError
  | ConfigurationError
  | ReasoningError
  | PlannerError
  | ExecutorError
  | ImageProcessingError
  | RetryError
  | AuthenticationError
  | QuotaExceededError
  | InvalidRequestError
  | ServiceUnavailableError
  | ValueError
  | KeyError
  | IndexError
  | TimeoutError
  | PydanticValidationError
  | OtherException

datatype exn =
  Exn (exn_class: error_class) (exn_msg: string) (exn_status_code: "int option")
      (exn_response: "string option")

definition err :: "error_class \<Rightarrow> string \<Rightarrow> exn" where
  "err c msg = Exn c msg None None"

text \<open>Python's \<^verbatim>\<open>str(n)\<close> for an integer, used by the f-strings.\<close>

definition digit_char :: "nat \<Rightarrow> char" where
  "digit_char d = ''0123456789'' ! d"

fun str_nat :: "nat \<Rightarrow> string" where
  "str_nat n = (if n < 10 then [digit_char n] else str_nat (n div 10) @ [digit_char (n mod 10)])"

definition str_int :: "int \<Rightarrow> string" where
  "str_int i = (if i < 0 then CHR ''-'' # str_nat (nat (- i)) else str_nat (nat i))"

text \<open>
  \<^verbatim>\<open>raise_for_status_code\<close>: the table \<^verbatim>\<open>error_map\<close>, looked up only for a status of 400 or
  more, with the generic \<^verbatim>\<open>APIError\<close> as the default of \<^verbatim>\<open>dict.get\<close>. \<open>None\<close> is a normal
  return.
\<close>

definition error_map :: "int \<Rightarrow> string option \<Rightarrow> (int \<times> exn) list" where
  "error_map status_code response_text =
     [(400, Exn InvalidRequestError ''Invalid request'' (Some status_code) response_text),
      (401, Exn AuthenticationError ''Authentication failed'' (Some status_code) response_text),
      (403, Exn AuthenticationError ''Permission denied'' (Some status_code) response_text),
      (429, Exn QuotaExceededError ''Rate limit exceeded'' (Some status_code) response_text),
      (500, Exn ServiceUnavailableError ''Internal server error'' (Some status_code) response_text),
      (502, Exn ServiceUnavailableError ''Bad gateway'' (Some status_code) response_text),
      (503, Exn ServiceUnavailableError ''Service unavailable'' (Some status_code) response_text),
      (504, Exn ServiceUnavailableError ''Gateway timeout'' (Some status_code) response_text)]"

definition raise_for_status_code :: "int \<Rightarrow> string option \<Rightarrow> exn option" where
  "raise_for_status_code status_code response_text =
     (if status_code \<ge> 400 then
        Some (case map_of (error_map status_code response_text) status_code of
                Some e \<Rightarrow> e
              | None \<Rightarrow> Exn APIError (''HTTP '' @ str_int status_code @ '' error'')
                          (Some status_code) response_text)
      else None)"

section \<open>Configuration (config.py)\<close>

record CacheConfig =
  enabled :: bool
  cache_system_messages :: bool
  cache_user_messages :: bool
  min_cache_size :: int
  ttl_seconds :: int

text \<open>\<^verbatim>\<open>RateLimit\<close> of \<^verbatim>\<open>llms/rate_limiter.py\<close>.\<close>

record RateLimit =
  requests_per_minute :: int
  concurrent_requests :: int

text \<open>
  \<^verbatim>\<open>LLMConfig\<close>. The dataclass declares no \<^verbatim>\<open>rate_limit\<close> field, but
  \<^verbatim>\<open>BaseLLMModule._validate_config\<close> asks \<^verbatim>\<open>hasattr(self.config, 'rate_limit')\<close>: the field
  \<open>rate_limit\<close> is \<open>None\<close> when the object has no such attribute (every object as its
  constructor leaves it) and \<open>Some rl\<close> when one was set on it.
\<close>

record LLMConfig =
  model :: string
  api_key :: string
  provider :: string
  temperature :: real
  max_tokens :: "int option"
  top_p :: real
  top_k :: "int option"
  presence_penalty :: real
  frequency_penalty :: real
  cache_config :: CacheConfig
  extra_config :: "(string \<times> string) list"
  rate_limit :: "RateLimit option"



section \<open>The module base class (llms/base.py)\<close>

text \<open>
  Values a context dictionary holds: a string, or a dictionary (the \<^verbatim>\<open>additional_context\<close>
  of the orchestrator's validated context). A dictionary display is the list of its items in
  order; as in Python, a repeated key takes the later value.
\<close>

datatype pyval = PStr string | PDict "(string \<times> pyval) list"

type_synonym pydict = "string \<rightharpoonup> pyval"

text \<open>\<^verbatim>\<open>dict.update\<close>: the items are assigned in order.\<close>

definition dict_update :: "pydict \<Rightarrow> (string \<times> pyval) list \<Rightarrow> pydict" where
  "dict_update d kvs = fold (\<lambda>kv m. m(fst kv \<mapsto> snd kv)) kvs d"

definition dict_of :: "(string \<times> pyval) list \<Rightarrow> pydict" where
  "dict_of kvs = dict_update Map.empty kvs"

text \<open>
  A module object: its configuration and its context (the \<^verbatim>\<open>_session\<close> attribute, which only
  \<^verbatim>\<open>cleanup\<close> touches, is left out).
\<close>

record llm_module =
  module_config :: LLMConfig
  module_context :: pydict

text \<open>\<^verbatim>\<open>BaseLLMModule._validate_config\<close>.\<close>

definition validate_config :: "LLMConfig \<Rightarrow> exn option" where
  "validate_config c =
     (if api_key c = [] then Some (err ValidationError ''API key is required'')
      else if model c = [] then Some (err ValidationError ''Model name is required'')
      else (case rate_limit c of
              None \<Rightarrow> None
            | Some rl \<Rightarrow>
                if requests_per_minute rl < 1 then
                  Some (err ValidationError ''Requests per minute must be at least 1'')
                else if concurrent_requests rl < 1 then
                  Some (err ValidationError ''Concurrent requests must be at least 1'')
                else None))"

text \<open>\<^verbatim>\<open>BaseLLMModule.__init__\<close>: the context starts empty.\<close>

definition BaseLLMModule_init :: "LLMConfig \<Rightarrow> exn + llm_module" where
  "BaseLLMModule_init c =
     (case validate_config c of
        Some e \<Rightarrow> Inl e
      | None \<Rightarrow> Inr \<lparr>module_config = c, module_context = Map.empty\<rparr>)"

text \<open>
  \<^verbatim>\<open>BaseLLMModule.add_context\<close>: anything but a dictionary is rejected; a dictionary is
  merged into the context with \<^verbatim>\<open>self.context.update(context)\<close>.
\<close>

definition BaseLLMModule_add_context :: "pyval \<Rightarrow> llm_module \<Rightarrow> exn + llm_module" where
  "BaseLLMModule_add_context c m =
     (case c of
        PDict kvs \<Rightarrow> Inr (m\<lparr>module_context := dict_update (module_context m) kvs\<rparr>)
      | PStr _ \<Rightarrow> Inl (err ValidationError ''Context must be a dictionary''))"

section \<open>The orchestrator (agent.py)\<close>

text \<open>
  \<^verbatim>\<open>AgentContext\<close> is a pydantic model: three required string fields, and
  \<^verbatim>\<open>additional_context\<close>, a dictionary that defaults to the empty one. Building it from the
  keyword arguments \<^verbatim>\<open>**context\<close> fails with pydantic's \<^verbatim>\<open>ValidationError\<close> when a required
  field is missing or a field has the wrong type; keys that are not fields are ignored.
  Pydantic's message is abbreviated.
\<close>

record AgentContext =
  domain :: string
  expertise_level :: string
  preferred_language :: string
  additional_context :: "(string \<times> pyval) list"

definition AgentContext_init :: "(string \<times> pyval) list \<Rightarrow> exn + AgentContext" where
  "AgentContext_init kwargs =
     (let d = dict_of kwargs in
      case (d ''domain'', d ''expertise_level'', d ''preferred_language'') of
        (Some (PStr a), Some (PStr b), Some (PStr c)) \<Rightarrow>
          (case d ''additional_context'' of
             None \<Rightarrow> Inr \<lparr>domain = a, expertise_level = b, preferred_language = c,
                          additional_context = []\<rparr>
           | Some (PDict ac) \<Rightarrow> Inr \<lparr>domain = a, expertise_level = b, preferred_language = c,
                          additional_context = ac\<rparr>
           | Some (PStr _) \<Rightarrow> Inl (err PydanticValidationError ''validation error for AgentContext''))
      | _ \<Rightarrow> Inl (err PydanticValidationError ''validation error for AgentContext''))"


text \<open>\<^verbatim>\<open>validated_context.dict()\<close>: the four fields, in declaration order.\<close>

definition AgentContext_dict :: "AgentContext \<Rightarrow> (string \<times> pyval) list" where
  "AgentContext_dict v =
     [(''domain'', PStr (domain v)),
      (''expertise_level'', PStr (expertise_level v)),
      (''preferred_language'', PStr (preferred_language v)),
      (''additional_context'', PDict (additional_context v))]"

record AgentConfig =
  reasoning_config :: LLMConfig
  planner_config :: LLMConfig
  executor_config :: LLMConfig

record MultiLLMAgent =
  agent_config :: AgentConfig
  reasoning :: llm_module
  planner :: llm_module
  executor :: llm_module
  agent_context :: "AgentContext option"


text \<open>
  \<^verbatim>\<open>MultiLLMAgent.__init__\<close> builds the three modules in order; an exception of a module's
  constructor leaves it.
\<close>

definition MultiLLMAgent_init :: "AgentConfig \<Rightarrow> exn + MultiLLMAgent" where
  "MultiLLMAgent_init cfg =
     (case BaseLLMModule_init (reasoning_config cfg) of
        Inl e \<Rightarrow> Inl e
      | Inr r \<Rightarrow>
     (case BaseLLMModule_init (planner_config cfg) of
        Inl e \<Rightarrow> Inl e
      | Inr p \<Rightarrow>
     (case BaseLLMModule_init (executor_config cfg) of
        Inl e \<Rightarrow> Inl e
      | Inr x \<Rightarrow>
          Inr \<lparr>agent_config = cfg, reasoning = r, planner = p, executor = x,
               agent_context = None\<rparr>)))"


text \<open>
  \<^verbatim>\<open>MultiLLMAgent._rollback_context\<close> calls \<^verbatim>\<open>module.add_context({})\<close> on each module
  (source comment: "Reset context") and logs an exception instead of raising it.
\<close>

definition reset_context :: "llm_module \<Rightarrow> llm_module" where
  "reset_context m = (case BaseLLMModule_add_context (PDict []) m of Inr m' \<Rightarrow> m' | Inl e \<Rightarrow> m)"

definition rollback_context :: "MultiLLMAgent \<Rightarrow> MultiLLMAgent" where
  "rollback_context a =
     (let a1 = a\<lparr>reasoning := reset_context (reasoning a)\<rparr>;
          a2 = a1\<lparr>planner := reset_context (planner a1)\<rparr>
      in a2\<lparr>executor := reset_context (executor a2)\<rparr>)"


text \<open>
  \<^verbatim>\<open>MultiLLMAgent.add_context\<close>. The result is the exception that leaves the method (if
  any) and the agent afterwards. Validation comes first; then the loop over
  \<^verbatim>\<open>(self.reasoning, self.planner, self.executor)\<close>, written out: a module's exception
  triggers \<^verbatim>\<open>_rollback_context\<close> and is raised again.
\<close>

definition MultiLLMAgent_add_context ::
  "(string \<times> pyval) list \<Rightarrow> MultiLLMAgent \<Rightarrow> exn option \<times> MultiLLMAgent" where
  "MultiLLMAgent_add_context c a =
     (case AgentContext_init c of
        Inl e \<Rightarrow> (Some e, a)
      | Inr validated_context \<Rightarrow>
          let a0 = a\<lparr>agent_context := Some validated_context\<rparr>;
              sanitized_context = PDict (AgentContext_dict validated_context)
          in (case BaseLLMModule_add_context sanitized_context (reasoning a0) of
                Inl e \<Rightarrow> (Some e, rollback_context a0)
              | Inr r \<Rightarrow>
                  let a1 = a0\<lparr>reasoning := r\<rparr>
                  in (case BaseLLMModule_add_context sanitized_context (planner a1) of
                        Inl e \<Rightarrow> (Some e, rollback_context a1)
                      | Inr p \<Rightarrow>
                          let a2 = a1\<lparr>planner := p\<rparr>
                          in (case BaseLLMModule_add_context sanitized_context (executor a2) of
                                Inl e \<Rightarrow> (Some e, rollback_context a2)
                              | Inr x \<Rightarrow> (None, a2\<lparr>executor := x\<rparr>)))))"


text \<open>
  Concrete objects for the examples: a configuration as \<^verbatim>\<open>config.py\<close> builds its defaults
  (with a non-empty API key), the agent built from three of them, the context of
  \<^verbatim>\<open>example.py\<close>, and the agent after that context was added.
\<close>

definition example_config :: "string \<Rightarrow> LLMConfig" where
  "example_config m =
     \<lparr>model = m, api_key = ''key'', provider = ''openrouter'', temperature = 7 / 10,
      max_tokens = None, top_p = 1, top_k = None, presence_penalty = 0, frequency_penalty = 0,
      cache_config = \<lparr>enabled = True, cache_system_messages = True, cache_user_messages = True,
                       min_cache_size = 100, ttl_seconds = 300\<rparr>,
      extra_config = [(''site_url'', ''https://example.com''), (''app_name'', ''Multi-LLM Agent'')],
      rate_limit = None\<rparr>"

definition example_agent :: MultiLLMAgent where
  "example_agent =
     \<lparr>agent_config = \<lparr>reasoning_config = example_config ''openai/o1-preview'',
                       planner_config = example_config ''anthropic/claude-3.5-sonnet:beta'',
                       executor_config = example_config ''anthropic/claude-3-5-haiku:beta''\<rparr>,
      reasoning = \<lparr>module_config = example_config ''openai/o1-preview'', module_context = Map.empty\<rparr>,
      planner = \<lparr>module_config = example_config ''anthropic/claude-3.5-sonnet:beta'', module_context = Map.empty\<rparr>,
      executor = \<lparr>module_config = example_config ''anthropic/claude-3-5-haiku:beta'', module_context = Map.empty\<rparr>,
      agent_context = None\<rparr>"


definition example_context :: "(string \<times> pyval) list" where
  "example_context =
     [(''domain'', PStr ''software development''),
      (''expertise_level'', PStr ''intermediate''),
      (''preferred_language'', PStr ''python'')]"

definition example_sanitized :: pydict where
  "example_sanitized =
     [''domain'' \<mapsto> PStr ''software development'',
      ''expertise_level'' \<mapsto> PStr ''intermediate'',
      ''preferred_language'' \<mapsto> PStr ''python'',
      ''additional_context'' \<mapsto> PDict []]"

definition example_agent_with_context :: MultiLLMAgent where
  "example_agent_with_context =
     example_agent
       \<lparr>reasoning := (reasoning example_agent)\<lparr>module_context := example_sanitized\<rparr>,
        planner := (planner example_agent)\<lparr>module_context := example_sanitized\<rparr>,
        executor := (executor example_agent)\<lparr>module_context := example_sanitized\<rparr>,
        agent_context := Some \<lparr>domain = ''software development'', expertise_level = ''intermediate'',
                               preferred_language = ''python'', additional_context = []\<rparr>\<rparr>"

section \<open>The rate limiter (llms/rate_limiter.py)\<close>

text \<open>
  The limiter's three dictionaries. An \<^verbatim>\<open>asyncio.Semaphore\<close> is its counter of free
  permits: \<^verbatim>\<open>acquire\<close> on a positive counter decrements it and goes on without
  suspending, on a zero counter the caller waits; \<^verbatim>\<open>release\<close> increments it (the class
  is not the bounded semaphore, so the counter may pass its initial value).
\<close>

record RateLimiter =
  rate_limits :: "string \<rightharpoonup> RateLimit"
  request_times :: "string \<rightharpoonup> real list"
  locks :: "string \<rightharpoonup> nat"

text \<open>
  \<^verbatim>\<open>RateLimiter.__init__\<close>, from the items of \<^verbatim>\<open>rate_limits\<close>. \<^verbatim>\<open>asyncio.Semaphore\<close>
  raises \<^verbatim>\<open>ValueError\<close> for a negative initial value; nothing else is checked.
\<close>

definition RateLimiter_init :: "(string \<times> RateLimit) list \<Rightarrow> exn + RateLimiter" where
  "RateLimiter_init limits =
     (if list_ex (\<lambda>kv. concurrent_requests (snd kv) < 0) limits then
        Inl (err ValueError ''Semaphore initial value must be >= 0'')
      else
        Inr \<lparr>rate_limits = map_of (rev limits),
             request_times = map_of (map (\<lambda>kv. (fst kv, [])) (rev limits)),
             locks = map_of (map (\<lambda>kv. (fst kv, nat (concurrent_requests (snd kv)))) (rev limits))\<rparr>)"

text \<open>\<^verbatim>\<open>RateLimiter.release\<close>; the exit of \<^verbatim>\<open>async with self._locks[model]\<close> is the same step.\<close>

definition release :: "string \<Rightarrow> RateLimiter \<Rightarrow> RateLimiter" where
  "release m rl =
     (case locks rl m of
        None \<Rightarrow> rl
      | Some v \<Rightarrow> rl\<lparr>locks := (locks rl)(m \<mapsto> v + 1)\<rparr>)"

text \<open>
  \<^verbatim>\<open>RateLimiter.acquire\<close>, run by one task: \<open>now\<close> is the first reading of \<^verbatim>\<open>time.time()\<close>,
  \<open>now'\<close> the second. The result is \<open>Returned slept rl'\<close> when the coroutine returns
  (\<open>slept\<close> is the argument of \<^verbatim>\<open>asyncio.sleep\<close>, if it was called), \<open>Blocked\<close> when the
  caller waits for a permit, and \<open>Raised e rl'\<close> for an exception. The body runs inside
  \<^verbatim>\<open>async with self._locks[model]\<close>: the permit is taken on entry and given back when the
  block is left, by return or by exception. What other tasks do while this one sleeps is
  not part of the model.
\<close>

datatype acquire_result =
    Returned "real option" RateLimiter
  | Blocked
  | Raised exn RateLimiter

definition acquire :: "string \<Rightarrow> real \<Rightarrow> real \<Rightarrow> RateLimiter \<Rightarrow> acquire_result" where
  "acquire m now now' rl =
     (case rate_limits rl m of
        None \<Rightarrow> Returned None rl
      | Some limit \<Rightarrow>
          (case locks rl m of
             None \<Rightarrow> Raised (err KeyError m) rl
           | Some v \<Rightarrow>
               if v = 0 then Blocked
               else
                 let rl1 = rl\<lparr>locks := (locks rl)(m \<mapsto> v - 1)\<rparr> in
                 (case request_times rl1 m of
                    None \<Rightarrow> Raised (err KeyError m) (release m rl1)
                  | Some ts \<Rightarrow>
                      let kept = filter (\<lambda>t. now - t < 60) ts;
                          rl2 = rl1\<lparr>request_times := (request_times rl1)(m \<mapsto> kept)\<rparr>;
                          rl3 = rl2\<lparr>request_times := (request_times rl2)(m \<mapsto> kept @ [now'])\<rparr>
                      in
                        if int (length kept) \<ge> requests_per_minute limit then
                          (case kept of
                             [] \<Rightarrow> Raised (err IndexError ''list index out of range'') (release m rl2)
                           | t0 # _ \<Rightarrow>
                               let wait_time = 60 - (now - t0) in
                               if wait_time > 0 then Returned (Some wait_time) (release m rl3)
                               else Returned None (release m rl3))
                        else Returned None (release m rl3))))"

text \<open>Limiters for the examples.\<close>

definition one_permit_limiter :: RateLimiter where
  "one_permit_limiter =
     \<lparr>rate_limits = [''m'' \<mapsto> \<lparr>requests_per_minute = 60, concurrent_requests = 1\<rparr>],
      request_times = [''m'' \<mapsto> []],
      locks = [''m'' \<mapsto> 1]\<rparr>"


section \<open>The call executor (llms/base.py)\<close>

text \<open>Python's \<^verbatim>\<open>repr\<close> of a plain string (in single quotes), and \<^verbatim>\<open>sep.join(parts)\<close>.\<close>

definition py_repr :: "string \<Rightarrow> string" where
  "py_repr k = [CHR 0x27] @ k @ [CHR 0x27]"

fun join :: "string \<Rightarrow> string list \<Rightarrow> string" where
  "join sep [] = []"
| "join sep [x] = x"
| "join sep (x # y # ys) = x @ sep @ join sep (y # ys)"

text \<open>
  The keyword dictionary handed to \<^verbatim>\<open>_make_api_call\<close>, as far as
  \<^verbatim>\<open>_validate_request_params\<close> reads it: whether the keys \<^verbatim>\<open>model\<close> and \<^verbatim>\<open>messages\<close> are
  there, whether \<^verbatim>\<open>messages\<close> is a list, and whether each message is a dictionary.
\<close>

datatype message_arg = NotADict | MessageDict "(string \<times> pyval) list"

datatype messages_arg = NotAList | MessageList "message_arg list"

record request_kwargs =
  req_model :: "string option"
  req_messages :: "messages_arg option"

text \<open>\<^verbatim>\<open>_validate_request_params\<close>: the loop over the messages, then the whole check.
  The text Python prints for the set of missing fields lists them in an order of its own;
  the model lists \<^verbatim>\<open>messages\<close> first.\<close>

fun validate_messages :: "message_arg list \<Rightarrow> exn option" where
  "validate_messages [] = None"
| "validate_messages (NotADict # msgs) =
     Some (err ValidationError ''Each message must be a dictionary'')"
| "validate_messages (MessageDict kvs # msgs) =
     (if ''role'' \<notin> fst ` set kvs \<or> ''content'' \<notin> fst ` set kvs then
        Some (err ValidationError (''Messages must have '' @ py_repr ''role'' @ '' and '' @ py_repr ''content''))
      else validate_messages msgs)"

definition missing_fields :: "request_kwargs \<Rightarrow> string list" where
  "missing_fields params =
     (if req_messages params = None then [''messages''] else []) @
     (if req_model params = None then [''model''] else [])"

definition repr_set :: "string list \<Rightarrow> string" where
  "repr_set ks = ''{'' @ join '', '' (map py_repr ks) @ ''}''"

definition validate_request_params :: "request_kwargs \<Rightarrow> exn option" where
  "validate_request_params params =
     (if missing_fields params \<noteq> [] then
        Some (err ValidationError (''Missing required fields: '' @ repr_set (missing_fields params)))
      else
        (case req_messages params of
           None \<Rightarrow> Some (err KeyError (py_repr ''messages''))
         | Some NotAList \<Rightarrow> Some (err ValidationError ''Messages must be a list'')
         | Some (MessageList msgs) \<Rightarrow>
             if msgs = [] then Some (err ValidationError ''Messages list cannot be empty'')
             else validate_messages msgs))"

text \<open>
  The parsed body of a 200 response, as far as \<^verbatim>\<open>_validate_response\<close> reads it. \<open>None\<close>
  for \<open>resp_choices\<close>, \<open>resp_model\<close> or a choice's message is a missing key (Python raises
  \<^verbatim>\<open>KeyError\<close>); \<open>None\<close> for a message's role or content is a field pydantic rejects
  (missing, or not a string). The body is the object \<^verbatim>\<open>_execute_api_call\<close> returns from
  \<^verbatim>\<open>response.json()\<close>; a body of another shape raises inside the same \<^verbatim>\<open>try\<close> as an
  exception of the call does, and is an attempt that \<open>Raises\<close>.
\<close>

record message_json =
  msg_role :: "string option"
  msg_content :: "string option"

record response_json =
  resp_choices :: "message_json option list option"
  resp_model :: "string option"
  resp_usage :: "(string \<times> int) list option"

text \<open>The validated models \<^verbatim>\<open>MessageContent\<close> and \<^verbatim>\<open>APIResponse\<close> (without \<^verbatim>\<open>tool_calls\<close>,
  which nothing embedded here reads).\<close>

record MessageContent =
  content :: string
  role :: string

record APIResponse =
  choices :: "MessageContent list"
  response_model :: string
  usage :: "(string \<times> int) list option"

text \<open>
  \<^verbatim>\<open>_validate_response\<close>. The list comprehension over the choices comes first, then
  \<^verbatim>\<open>response['model']\<close>, then the two explicit checks, which raise the taxonomy's
  \<open>ValidationError\<close>. The \<^verbatim>\<open>except\<close> clause catches pydantic's \<^verbatim>\<open>ValidationError\<close> (and
  \<^verbatim>\<open>JSONDecodeError\<close>) only, and turns it into the taxonomy's; every other exception
  leaves the function as it is. Pydantic's message is abbreviated.
\<close>

fun validate_choices :: "message_json option list \<Rightarrow> exn + MessageContent list" where
  "validate_choices [] = Inr []"
| "validate_choices (None # cs) = Inl (err KeyError (py_repr ''message''))"
| "validate_choices (Some m # cs) =
     (case (msg_content m, msg_role m) of
        (Some c, Some r) \<Rightarrow>
          (case validate_choices cs of
             Inl e \<Rightarrow> Inl e
           | Inr ms \<Rightarrow> Inr (\<lparr>content = c, role = r\<rparr> # ms))
      | _ \<Rightarrow> Inl (err PydanticValidationError ''validation error for MessageContent''))"

definition validate_response :: "response_json \<Rightarrow> exn + APIResponse" where
  "validate_response response =
     (case
        (case resp_choices response of
           None \<Rightarrow> Inl (err KeyError (py_repr ''choices''))
         | Some cs \<Rightarrow>
             (case validate_choices cs of
                Inl e \<Rightarrow> Inl e
              | Inr ms \<Rightarrow>
                  (case resp_model response of
                     None \<Rightarrow> Inl (err KeyError (py_repr ''model''))
                   | Some m \<Rightarrow>
                       (case ms of
                          [] \<Rightarrow> Inl (err ValidationError ''Response contains no choices'')
                        | first # _ \<Rightarrow>
                            if content first = [] then
                              Inl (err ValidationError ''Response message content is empty'')
                            else Inr \<lparr>choices = ms, response_model = m,
                                      usage = resp_usage response\<rparr>))))
      of
        Inl e \<Rightarrow>
          if exn_class e = PydanticValidationError then
            Inl (err ValidationError (''Invalid API response format: '' @ exn_msg e))
          else Inl e
      | Inr validated \<Rightarrow> Inr validated)"

text \<open>
  What one attempt meets: \<^verbatim>\<open>asyncio.wait_for(self._execute_api_call(...))\<close> raises (a
  breached deadline is an exception of class \<open>TimeoutError\<close>) or returns a body. The
  network is a function from the attempt's number (from 0) to what it meets.
\<close>

datatype attempt = Raises exn | Responds response_json

definition run_attempt :: "(nat \<Rightarrow> attempt) \<Rightarrow> string \<Rightarrow> string \<Rightarrow> nat \<Rightarrow> exn + APIResponse" where
  "run_attempt net error_prefix timeout i =
     (case (case net i of Raises e \<Rightarrow> Inl e | Responds response \<Rightarrow> validate_response response) of
        Inl e \<Rightarrow>
          if exn_class e = TimeoutError then
            Inl (err LLMError (error_prefix @ '': Request timed out after '' @ timeout @ '' seconds''))
          else Inl e
      | Inr validated \<Rightarrow> Inr validated)"

text \<open>
  The result of \<^verbatim>\<open>_make_api_call\<close>: the value returned or the exception raised, the number
  of calls of \<^verbatim>\<open>_execute_api_call\<close>, and the arguments of \<^verbatim>\<open>asyncio.sleep\<close> in order.
\<close>

record call_result =
  outcome :: "exn + APIResponse"
  attempts_made :: nat
  sleeps :: "real list"

text \<open>The \<^verbatim>\<open>while attempts <= max_retries\<close> loop and the \<^verbatim>\<open>raise\<close> after it. \<open>timeout\<close>
  is the text Python prints for the timeout (\<^verbatim>\<open>30.0\<close> by default).\<close>

function attempt_loop ::
  "(nat \<Rightarrow> attempt) \<Rightarrow> string \<Rightarrow> string \<Rightarrow> int \<Rightarrow> real \<Rightarrow> nat \<Rightarrow> exn option \<Rightarrow> real list
     \<Rightarrow> call_result" where
  "attempt_loop net error_prefix timeout max_retries retry_delay attempts last_error slept =
     (if int attempts \<le> max_retries then
        (case run_attempt net error_prefix timeout attempts of
           Inr validated \<Rightarrow>
             \<lparr>outcome = Inr validated, attempts_made = attempts + 1, sleeps = slept\<rparr>
         | Inl e \<Rightarrow>
             attempt_loop net error_prefix timeout max_retries retry_delay (attempts + 1) (Some e)
               (if int (attempts + 1) \<le> max_retries
                then slept @ [retry_delay * real (attempts + 1)] else slept))
      else
        \<lparr>outcome = Inl (case last_error of
                          Some e \<Rightarrow> e
                        | None \<Rightarrow> err LLMError (error_prefix @ '': All retry attempts failed'')),
         attempts_made = attempts, sleeps = slept\<rparr>)"
  by pat_completeness auto
termination
  by (relation "measure (\<lambda>(net, p, t, max_retries, d, attempts, e, s). nat (max_retries + 1 - int attempts))")
    auto

text \<open>The two \<^verbatim>\<open>except\<close> clauses around the body of \<^verbatim>\<open>_make_api_call\<close>: the first names
  pydantic's \<^verbatim>\<open>ValidationError\<close>, the second every other exception.\<close>

definition translate_error :: "string \<Rightarrow> exn \<Rightarrow> exn" where
  "translate_error error_prefix e =
     (if exn_class e = PydanticValidationError then
        err ValidationError (error_prefix @ '': '' @ exn_msg e)
      else err LLMError (error_prefix @ '': '' @ exn_msg e))"

text \<open>\<^verbatim>\<open>_make_api_call\<close>.\<close>

definition make_api_call ::
  "(nat \<Rightarrow> attempt) \<Rightarrow> request_kwargs \<Rightarrow> string \<Rightarrow> int \<Rightarrow> real \<Rightarrow> string \<Rightarrow> call_result" where
  "make_api_call net request_kwargs error_prefix max_retries retry_delay timeout =
     (case validate_request_params request_kwargs of
        Some e \<Rightarrow>
          \<lparr>outcome = Inl (translate_error error_prefix e), attempts_made = 0, sleeps = []\<rparr>
      | None \<Rightarrow>
          let r = attempt_loop net error_prefix timeout max_retries retry_delay 0 None []
          in (case outcome r of
                Inl e \<Rightarrow> r\<lparr>outcome := Inl (translate_error error_prefix e)\<rparr>
              | Inr validated \<Rightarrow> r))"

text \<open>Requests, response bodies and networks for the examples.\<close>

definition example_request :: request_kwargs where
  "example_request =
     \<lparr>req_model = Some ''anthropic/claude-3.5-sonnet:beta'',
      req_messages = Some (MessageList
        [MessageDict [(''role'', PStr ''system''), (''content'', PStr ''You are a strategic planner.'')],
         MessageDict [(''role'', PStr ''user''), (''content'', PStr ''Plan the release.'')]])\<rparr>"

definition no_choices_response :: response_json where
  "no_choices_response =
     \<lparr>resp_choices = Some [], resp_model = Some ''anthropic/claude-3.5-sonnet:beta'',
      resp_usage = None\<rparr>"

definition valid_response :: response_json where
  "valid_response =
     \<lparr>resp_choices = Some [Some \<lparr>msg_role = Some ''assistant'', msg_content = Some ''1. Tag the release''\<rparr>],
      resp_model = Some ''anthropic/claude-3.5-sonnet:beta'',
      resp_usage = None\<rparr>"

definition invalid_then_valid :: "nat \<Rightarrow> attempt" where
  "invalid_then_valid i = (if i = 0 then Responds no_choices_response else Responds valid_response)"

definition always_invalid :: "nat \<Rightarrow> attempt" where
  "always_invalid i = Responds no_choices_response"

definition empty_messages_request :: request_kwargs where
  "empty_messages_request =
     \<lparr>req_model = Some ''anthropic/claude-3.5-sonnet:beta'', req_messages = Some (MessageList [])\<rparr>"

definition empty_content_response :: response_json where
  "empty_content_response =
     \<lparr>resp_choices = Some [Some \<lparr>msg_role = Some ''assistant'', msg_content = Some []\<rparr>],
      resp_model = Some ''anthropic/claude-3.5-sonnet:beta'',
      resp_usage = None\<rparr>"

section \<open>Properties\<close>

subsection \<open>Status codes\<close>

lemma raise_for_status_code_listed:
  "raise_for_status_code 400 rt = Some (Exn InvalidRequestError ''Invalid request'' (Some 400) rt)"
  "raise_for_status_code 401 rt = Some (Exn AuthenticationError ''Authentication failed'' (Some 401) rt)"
  "raise_for_status_code 403 rt = Some (Exn AuthenticationError ''Permission denied'' (Some 403) rt)"
  "raise_for_status_code 429 rt = Some (Exn QuotaExceededError ''Rate limit exceeded'' (Some 429) rt)"
  "raise_for_status_code 500 rt = Some (Exn ServiceUnavailableError ''Internal server error'' (Some 500) rt)"
  "raise_for_status_code 502 rt = Some (Exn ServiceUnavailableError ''Bad gateway'' (Some 502) rt)"
  "raise_for_status_code 503 rt = Some (Exn ServiceUnavailableError ''Service unavailable'' (Some 503) rt)"
  "raise_for_status_code 504 rt = Some (Exn ServiceUnavailableError ''Gateway timeout'' (Some 504) rt)"
  by (simp_all add: raise_for_status_code_def error_map_def)

lemma raise_for_status_code_other:
  assumes "sc \<ge> 400" and "sc \<notin> {400, 401, 403, 429, 500, 502, 503, 504}"
  shows "raise_for_status_code sc rt =
           Some (Exn APIError (''HTTP '' @ str_int sc @ '' error'') (Some sc) rt)"
  using assms by (simp add: raise_for_status_code_def error_map_def)

text \<open>
  Claim C6, as the code has it: a status below 400 raises nothing; 400 raises
  \<open>InvalidRequestError\<close>, 401 and 403 \<open>AuthenticationError\<close>, 429 \<open>QuotaExceededError\<close>;
  of the 5xx statuses only 500, 502, 503 and 504 raise \<open>ServiceUnavailableError\<close>; every
  other status of 400 or more (501 and 505 to 599 included) raises the generic \<open>APIError\<close>.
  The exception carries the status and the response text.
\<close>

theorem raise_for_status_code_classes:
  "(sc < 400 \<longrightarrow> raise_for_status_code sc rt = None) \<and>
   (sc \<ge> 400 \<longrightarrow>
      (\<exists>e. raise_for_status_code sc rt = Some e \<and>
           exn_status_code e = Some sc \<and> exn_response e = rt \<and>
           exn_class e =
             (if sc = 400 then InvalidRequestError
              else if sc = 401 \<or> sc = 403 then AuthenticationError
              else if sc = 429 then QuotaExceededError
              else if sc = 500 \<or> sc = 502 \<or> sc = 503 \<or> sc = 504 then ServiceUnavailableError
              else APIError)))"
proof (intro conjI impI)
  assume "sc < 400"
  then show "raise_for_status_code sc rt = None"
    by (simp add: raise_for_status_code_def)
next
  assume ge: "sc \<ge> 400"
  show "\<exists>e. raise_for_status_code sc rt = Some e \<and>
           exn_status_code e = Some sc \<and> exn_response e = rt \<and>
           exn_class e =
             (if sc = 400 then InvalidRequestError
              else if sc = 401 \<or> sc = 403 then AuthenticationError
              else if sc = 429 then QuotaExceededError
              else if sc = 500 \<or> sc = 502 \<or> sc = 503 \<or> sc = 504 then ServiceUnavailableError
              else APIError)"
  proof (cases "sc \<in> {400, 401, 403, 429, 500, 502, 503, 504}")
    case True
    then show ?thesis
      by (auto simp: raise_for_status_code_listed)
  next
    case False
    with ge show ?thesis
      by (simp add: raise_for_status_code_other)
  qed
qed

theorem raise_for_status_code_classes_witness:
  "raise_for_status_code 200 None = None \<and>
   map_option exn_class (raise_for_status_code 503 (Some ''down'')) = Some ServiceUnavailableError \<and>
   map_option exn_class (raise_for_status_code 418 None) = Some APIError"
  using raise_for_status_code_classes [of 200 None]
    raise_for_status_code_classes [of 503 "Some ''down''"]
    raise_for_status_code_classes [of 418 None]
  by auto

text \<open>
  The claim as stated fails at 501, a status in 500 to 599: the table has no entry for it,
  so the default of the lookup, the generic \<open>APIError\<close>, is raised.
\<close>

theorem raise_for_status_code_501_counterexample:
  "raise_for_status_code 501 None = Some (Exn APIError ''HTTP 501 error'' (Some 501) None) \<and>
   map_option exn_class (raise_for_status_code 501 None) \<noteq> Some ServiceUnavailableError"
  by (simp add: raise_for_status_code_def error_map_def str_int_def digit_char_def)
subsection \<open>Construction\<close>

lemma example_agent_constructed:
  "MultiLLMAgent_init \<lparr>reasoning_config = example_config ''openai/o1-preview'',
                       planner_config = example_config ''anthropic/claude-3.5-sonnet:beta'',
                       executor_config = example_config ''anthropic/claude-3-5-haiku:beta''\<rparr>
     = Inr example_agent"
  by (simp add: MultiLLMAgent_init_def BaseLLMModule_init_def validate_config_def
      example_config_def example_agent_def)





subsection \<open>Module context\<close>

lemma dict_update_append: "dict_update d (xs @ ys) = dict_update (dict_update d xs) ys"
  by (simp add: dict_update_def)

lemma dict_update_notin: "k \<notin> fst ` set kvs \<Longrightarrow> dict_update d kvs k = d k"
  unfolding dict_update_def by (induction kvs arbitrary: d) auto

lemma dict_update_in: "k \<in> fst ` set kvs \<Longrightarrow> dict_update d kvs k = dict_of kvs k"
  unfolding dict_of_def dict_update_def
proof (induction kvs arbitrary: d rule: rev_induct)
  case Nil
  then show ?case by simp
next
  case (snoc x xs)
  then show ?case by (cases "k = fst x") auto
qed

lemma dom_dict_update: "dom (dict_update d kvs) = dom d \<union> fst ` set kvs"
  unfolding dict_update_def by (induction kvs arbitrary: d) auto


text \<open>
  Claim C2, as the code has it: \<^verbatim>\<open>add_context\<close> merges. After \<^verbatim>\<open>add_context(m1)\<close> and
  \<^verbatim>\<open>add_context(m2)\<close> (both succeed) the context is the previous context updated with
  \<open>m1\<close> and then with \<open>m2\<close>: every key of \<open>m2\<close> has \<open>m2\<close>'s value, and every other key
  keeps the value it had after the first call, so the keys of \<open>m1\<close> (and of the context
  before) that \<open>m2\<close> lacks survive.
\<close>

theorem add_context_merges:
  "\<exists>M1 M2. BaseLLMModule_add_context (PDict m1) M = Inr M1 \<and>
     BaseLLMModule_add_context (PDict m2) M1 = Inr M2 \<and>
     module_context M2 = dict_update (dict_update (module_context M) m1) m2 \<and>
     (\<forall>k. k \<in> fst ` set m2 \<longrightarrow> module_context M2 k = dict_of m2 k) \<and>
     (\<forall>k. k \<notin> fst ` set m2 \<longrightarrow> module_context M2 k = module_context M1 k) \<and>
     dom (module_context M2) = dom (module_context M) \<union> fst ` set m1 \<union> fst ` set m2"
  by (simp add: BaseLLMModule_add_context_def dict_update_in dict_update_notin dom_dict_update)


theorem add_context_merges_witness:
  "BaseLLMModule_add_context (PDict [(''a'', PStr ''1'')]) (reasoning example_agent)
     = Inr ((reasoning example_agent)\<lparr>module_context := [''a'' \<mapsto> PStr ''1'']\<rparr>) \<and>
   BaseLLMModule_add_context (PDict [(''b'', PStr ''2'')])
       ((reasoning example_agent)\<lparr>module_context := [''a'' \<mapsto> PStr ''1'']\<rparr>)
     = Inr ((reasoning example_agent)\<lparr>module_context := [''a'' \<mapsto> PStr ''1'', ''b'' \<mapsto> PStr ''2'']\<rparr>) \<and>
   ''b'' \<in> fst ` set [(''b'', PStr ''2'')] \<and> ''a'' \<notin> fst ` set [(''b'', PStr ''2'')]"
  using add_context_merges [of "[(''a'', PStr ''1'')]" "reasoning example_agent" "[(''b'', PStr ''2'')]"]
  by (simp add: BaseLLMModule_add_context_def dict_update_def example_agent_def)


text \<open>
  The claim as stated (the context equals \<open>m2\<close> alone) fails for \<open>m1 = {a: 1}\<close> and
  \<open>m2 = {b: 2}\<close> on a module with an empty context: the key \<open>a\<close> survives the second call.
\<close>

theorem add_context_replace_counterexample:
  "BaseLLMModule_add_context (PDict [(''a'', PStr ''1'')]) (reasoning example_agent)
     = Inr ((reasoning example_agent)\<lparr>module_context := [''a'' \<mapsto> PStr ''1'']\<rparr>) \<and>
   BaseLLMModule_add_context (PDict [(''b'', PStr ''2'')])
       ((reasoning example_agent)\<lparr>module_context := [''a'' \<mapsto> PStr ''1'']\<rparr>)
     = Inr ((reasoning example_agent)\<lparr>module_context := [''a'' \<mapsto> PStr ''1'', ''b'' \<mapsto> PStr ''2'']\<rparr>) \<and>
   [''a'' \<mapsto> PStr ''1'', ''b'' \<mapsto> PStr ''2''] ''a'' = Some (PStr ''1'') \<and>
   dict_of [(''b'', PStr ''2'')] ''a'' = None \<and>
   [''a'' \<mapsto> PStr ''1'', ''b'' \<mapsto> PStr ''2''] \<noteq> dict_of [(''b'', PStr ''2'')]"
proof -
  have "[''a'' \<mapsto> PStr ''1'', ''b'' \<mapsto> PStr ''2''] ''a'' \<noteq> dict_of [(''b'', PStr ''2'')] ''a''"
    by (simp add: dict_of_def dict_update_def)
  then have "[''a'' \<mapsto> PStr ''1'', ''b'' \<mapsto> PStr ''2''] \<noteq> dict_of [(''b'', PStr ''2'')]"
    by metis
  then show ?thesis
    by (simp add: BaseLLMModule_add_context_def dict_update_def dict_of_def example_agent_def)
qed


subsection \<open>Orchestrator context\<close>

text \<open>
  The reset of \<^verbatim>\<open>_rollback_context\<close> changes nothing, since \<^verbatim>\<open>add_context({})\<close> merges the
  empty dictionary.
\<close>

lemma reset_context_noop: "reset_context m = m"
  by (simp add: reset_context_def BaseLLMModule_add_context_def dict_update_def)

lemma rollback_context_noop: "rollback_context a = a"
  by (simp add: rollback_context_def reset_context_noop)

lemma AgentContext_init_missing:
  assumes "k \<in> {''domain'', ''expertise_level'', ''preferred_language''}" and "dict_of c k = None"
  shows "AgentContext_init c = Inl (err PydanticValidationError ''validation error for AgentContext'')"
  using assms by (auto simp: AgentContext_init_def Let_def split: option.splits pyval.splits)


text \<open>
  Claim C1, as the code has it: when the mapping lacks a required field, the orchestrator's
  \<^verbatim>\<open>add_context\<close> fails with pydantic's validation error before any module is touched, so
  the agent is unchanged and every module's context equals its value before the call.
\<close>

theorem add_context_missing_field_keeps_contexts:
  assumes "k \<in> {''domain'', ''expertise_level'', ''preferred_language''}" and "dict_of c k = None"
  shows "\<exists>e. MultiLLMAgent_add_context c a = (Some e, a) \<and>
           exn_class e = PydanticValidationError \<and>
           module_context (reasoning (snd (MultiLLMAgent_add_context c a))) = module_context (reasoning a) \<and>
           module_context (planner (snd (MultiLLMAgent_add_context c a))) = module_context (planner a) \<and>
           module_context (executor (snd (MultiLLMAgent_add_context c a))) = module_context (executor a)"
  using AgentContext_init_missing [OF assms]
  by (simp add: MultiLLMAgent_add_context_def err_def)


lemma example_add_context:
  "MultiLLMAgent_add_context example_context example_agent = (None, example_agent_with_context)"
  by (simp add: MultiLLMAgent_add_context_def AgentContext_init_def AgentContext_dict_def
      BaseLLMModule_add_context_def dict_of_def dict_update_def example_context_def
      example_agent_def example_agent_with_context_def example_sanitized_def)

theorem add_context_missing_field_keeps_contexts_witness:
  "''domain'' \<in> {''domain'', ''expertise_level'', ''preferred_language''} \<and>
   dict_of [(''user_context'', PStr ''x'')] ''domain'' = None \<and>
   MultiLLMAgent_add_context [(''user_context'', PStr ''x'')] example_agent_with_context
     = (Some (err PydanticValidationError ''validation error for AgentContext''),
        example_agent_with_context)"
proof -
  have h1: "''domain'' \<in> {''domain'', ''expertise_level'', ''preferred_language''}" by simp
  have h2: "dict_of [(''user_context'', PStr ''x'')] ''domain'' = None"
    by (simp add: dict_of_def dict_update_def)
  have "AgentContext_init [(''user_context'', PStr ''x'')]
          = Inl (err PydanticValidationError ''validation error for AgentContext'')"
    by (rule AgentContext_init_missing [OF h1 h2])
  with add_context_missing_field_keeps_contexts [OF h1 h2, of example_agent_with_context] h1 h2
  show ?thesis
    by (auto simp: MultiLLMAgent_add_context_def)
qed

text \<open>
  The claim as stated (every module's context is empty after a failed call) fails on the
  agent that holds the context of \<^verbatim>\<open>example.py\<close>: the call of \<^verbatim>\<open>app.py\<close>, with the single
  key \<open>user_context\<close>, fails and leaves the three contexts as they were, not empty.
\<close>

theorem add_context_failure_not_empty_counterexample:
  "MultiLLMAgent_add_context example_context example_agent = (None, example_agent_with_context) \<and>
   MultiLLMAgent_add_context [(''user_context'', PStr ''x'')] example_agent_with_context
     = (Some (err PydanticValidationError ''validation error for AgentContext''),
        example_agent_with_context) \<and>
   module_context (reasoning example_agent_with_context) ''domain'' = Some (PStr ''software development'') \<and>
   module_context (planner example_agent_with_context) ''domain'' = Some (PStr ''software development'') \<and>
   module_context (executor example_agent_with_context) ''domain'' = Some (PStr ''software development'') \<and>
   Map.empty ''domain'' = (None :: pyval option)"
proof -
  have "MultiLLMAgent_add_context [(''user_context'', PStr ''x'')] example_agent_with_context
     = (Some (err PydanticValidationError ''validation error for AgentContext''),
        example_agent_with_context)"
    by (simp add: MultiLLMAgent_add_context_def AgentContext_init_def dict_of_def dict_update_def)
  then show ?thesis
    by (simp add: example_add_context)
      (simp add: example_agent_with_context_def example_sanitized_def)
qed
subsection \<open>Rate limiter\<close>

lemma one_permit_limiter_constructed:
  "RateLimiter_init [(''m'', \<lparr>requests_per_minute = 60, concurrent_requests = 1\<rparr>)]
     = Inr one_permit_limiter"
  by (simp add: RateLimiter_init_def one_permit_limiter_def)

lemma acquire_keeps_permits:
  assumes "acquire m now now' rl = Returned slept rl'"
  shows "locks rl' = locks rl"
  using assms
  by (auto simp: acquire_def release_def Let_def fun_eq_iff
      split: option.splits if_splits list.splits)

text \<open>
  Claim C3 does not hold of the code. With \<open>concurrent_requests = 1\<close>, a first
  \<^verbatim>\<open>acquire\<close> returns and leaves the permit counter at 1 (the permit was given back when
  the \<^verbatim>\<open>async with\<close> block was left), so a second \<^verbatim>\<open>acquire\<close> returns as well, before any
  \<^verbatim>\<open>release\<close>: two callers are between \<^verbatim>\<open>acquire\<close> and \<^verbatim>\<open>release\<close>. Their two calls of
  \<^verbatim>\<open>release\<close> then raise the counter to 3.
\<close>

theorem acquire_holds_no_permit:
  "acquire ''m'' 0 0 one_permit_limiter
     = Returned None (one_permit_limiter\<lparr>request_times := [''m'' \<mapsto> [0]]\<rparr>) \<and>
   locks (one_permit_limiter\<lparr>request_times := [''m'' \<mapsto> [0]]\<rparr>) ''m'' = Some 1 \<and>
   acquire ''m'' 1 1 (one_permit_limiter\<lparr>request_times := [''m'' \<mapsto> [0]]\<rparr>)
     = Returned None (one_permit_limiter\<lparr>request_times := [''m'' \<mapsto> [0, 1]]\<rparr>) \<and>
   locks (release ''m'' (release ''m'' (one_permit_limiter\<lparr>request_times := [''m'' \<mapsto> [0, 1]]\<rparr>))) ''m''
     = Some 3"
  by (simp add: acquire_def release_def Let_def one_permit_limiter_def)




subsection \<open>Call executor\<close>

lemma validate_messages_class:
  "validate_messages msgs = Some e \<Longrightarrow> exn_class e = ValidationError"
  by (induction msgs rule: validate_messages.induct) (auto simp: err_def split: if_splits)

lemma validate_request_params_class:
  assumes "validate_request_params params = Some e"
  shows "exn_class e = ValidationError"
proof (cases "missing_fields params = []")
  case False
  with assms show ?thesis by (auto simp: validate_request_params_def err_def)
next
  case True
  then obtain ms where "req_messages params = Some ms"
    by (cases "req_messages params") (auto simp: missing_fields_def)
  with True assms show ?thesis
    by (cases ms) (auto simp: validate_request_params_def err_def
        dest: validate_messages_class split: if_splits)
qed

lemma make_api_call_invalid_request:
  assumes "validate_request_params params = Some e"
  shows "make_api_call net params p mr d t =
           \<lparr>outcome = Inl (err LLMError (p @ '': '' @ exn_msg e)), attempts_made = 0, sleeps = []\<rparr>"
  using assms validate_request_params_class [OF assms]
  by (simp add: make_api_call_def translate_error_def)

lemma attempt_loop_all_fail:
  assumes "\<And>i. attempts \<le> i \<Longrightarrow> int i \<le> mr \<Longrightarrow> isl (run_attempt net p t i)"
    and "int attempts \<le> mr + 1"
  shows "attempts_made (attempt_loop net p t mr d attempts le sl) = nat (mr + 1) \<and>
         isl (outcome (attempt_loop net p t mr d attempts le sl)) \<and>
         sleeps (attempt_loop net p t mr d attempts le sl)
           = sl @ map (\<lambda>k. d * real k) [attempts + 1..<nat (mr + 1)]"
  using assms
proof (induction net p t mr d attempts le sl rule: attempt_loop.induct)
  case (1 net p t mr d attempts le sl)
  show ?case
  proof (cases "int attempts \<le> mr")
    case False
    with "1.prems"(2) have "int attempts = mr + 1" by simp
    then have "nat (mr + 1) = attempts" by simp
    with False show ?thesis by simp
  next
    case True
    then obtain e where e: "run_attempt net p t attempts = Inl e"
      using "1.prems"(1) [of attempts] by (cases "run_attempt net p t attempts") auto
    let ?sl = "if int (attempts + 1) \<le> mr then sl @ [d * real (attempts + 1)] else sl"
    have step: "attempt_loop net p t mr d attempts le sl
                  = attempt_loop net p t mr d (attempts + 1) (Some e) ?sl"
      using True e by (subst attempt_loop.simps) simp
    have ih: "attempts_made (attempt_loop net p t mr d (attempts + 1) (Some e) ?sl) = nat (mr + 1) \<and>
         isl (outcome (attempt_loop net p t mr d (attempts + 1) (Some e) ?sl)) \<and>
         sleeps (attempt_loop net p t mr d (attempts + 1) (Some e) ?sl)
           = ?sl @ map (\<lambda>k. d * real k) [attempts + 1 + 1..<nat (mr + 1)]"
    proof (rule "1.IH" [OF True e])
      fix i assume "attempts + 1 \<le> i" "int i \<le> mr"
      then show "isl (run_attempt net p t i)" using "1.prems"(1) [of i] by simp
    next
      show "int (attempts + 1) \<le> mr + 1" using True by simp
    qed
    have sl: "?sl @ map (\<lambda>k. d * real k) [attempts + 1 + 1..<nat (mr + 1)]
                = sl @ map (\<lambda>k. d * real k) [attempts + 1..<nat (mr + 1)]"
    proof (cases "int (attempts + 1) \<le> mr")
      case True
      then have "attempts + 1 < nat (mr + 1)" by linarith
      then have "[attempts + 1..<nat (mr + 1)] = (attempts + 1) # [attempts + 1 + 1..<nat (mr + 1)]"
        by (simp add: upt_conv_Cons)
      with True show ?thesis by simp
    next
      case False
      then have "nat (mr + 1) \<le> attempts + 1" by linarith
      with False show ?thesis by simp
    qed
    show ?thesis using ih sl unfolding step by simp
  qed
qed

lemma attempt_loop_first_success:
  assumes "\<And>j. attempts \<le> j \<Longrightarrow> j < i \<Longrightarrow> isl (run_attempt net p t j)"
    and "run_attempt net p t i = Inr v"
    and "attempts \<le> i"
    and "int i \<le> mr"
  shows "attempt_loop net p t mr d attempts le sl =
           \<lparr>outcome = Inr v, attempts_made = i + 1,
            sleeps = sl @ map (\<lambda>k. d * real k) [attempts + 1..<i + 1]\<rparr>"
  using assms
proof (induction net p t mr d attempts le sl rule: attempt_loop.induct)
  case (1 net p t mr d attempts le sl)
  have le_mr: "int attempts \<le> mr" using "1.prems"(3,4) by simp
  show ?case
  proof (cases "attempts = i")
    case True
    with "1.prems"(2) le_mr show ?thesis by (subst attempt_loop.simps) simp
  next
    case False
    with "1.prems"(3) have lt: "attempts < i" by simp
    then obtain e where e: "run_attempt net p t attempts = Inl e"
      using "1.prems"(1) [of attempts] by (cases "run_attempt net p t attempts") auto
    let ?sl = "if int (attempts + 1) \<le> mr then sl @ [d * real (attempts + 1)] else sl"
    have step: "attempt_loop net p t mr d attempts le sl
                  = attempt_loop net p t mr d (attempts + 1) (Some e) ?sl"
      using le_mr e by (subst attempt_loop.simps) simp
    have ih: "attempt_loop net p t mr d (attempts + 1) (Some e) ?sl =
           \<lparr>outcome = Inr v, attempts_made = i + 1,
            sleeps = ?sl @ map (\<lambda>k. d * real k) [attempts + 1 + 1..<i + 1]\<rparr>"
    proof (rule "1.IH" [OF le_mr e])
      fix j assume "attempts + 1 \<le> j" "j < i"
      then show "isl (run_attempt net p t j)" using "1.prems"(1) [of j] by simp
    next
      show "run_attempt net p t i = Inr v" by (rule "1.prems"(2))
      show "attempts + 1 \<le> i" using lt by simp
      show "int i \<le> mr" by (rule "1.prems"(4))
    qed
    have next_le: "int (attempts + 1) \<le> mr" using lt "1.prems"(4) by linarith
    have "[attempts + 1..<i + 1] = (attempts + 1) # [attempts + 1 + 1..<i + 1]"
      using lt by (simp add: upt_conv_Cons)
    then show ?thesis using ih next_le unfolding step by simp
  qed
qed

lemma run_attempt_invalid_response:
  assumes "net i = Responds r" and "isl (validate_response r)"
  shows "isl (run_attempt net p t i)"
  using assms by (cases "validate_response r") (auto simp: run_attempt_def)

lemma validate_response_no_choices:
  assumes "resp_choices r = Some []" and "resp_model r \<noteq> None"
  shows "validate_response r = Inl (err ValidationError ''Response contains no choices'')"
  using assms by (auto simp: validate_response_def err_def)

lemma validate_response_empty_content:
  assumes "resp_choices r = Some (Some m # cs)" and "msg_content m = Some []"
    and "msg_role m \<noteq> None" and "validate_choices cs = Inr ms" and "resp_model r \<noteq> None"
  shows "validate_response r = Inl (err ValidationError ''Response message content is empty'')"
  using assms by (auto simp: validate_response_def err_def)

text \<open>
  Claim C4, as the code has it. A request that fails \<^verbatim>\<open>_validate_request_params\<close> fails
  the call before any attempt: no call, no sleep, no retry, and the exception that leaves
  \<^verbatim>\<open>_make_api_call\<close> is an \<open>LLMError\<close> with the validation message. A response with no
  choices, or with empty content in the first choice's message, makes
  \<^verbatim>\<open>_validate_response\<close> raise the taxonomy's \<open>ValidationError\<close>. Inside
  \<^verbatim>\<open>_make_api_call\<close> that exception is caught like any other failure of the attempt: when
  every attempt up to \<open>max_retries\<close> gets a response that fails validation, exactly
  \<open>max_retries + 1\<close> attempts are made, with the sleeps \<open>retry_delay * k\<close> between them,
  before the call fails; and when the first response fails validation and the second
  attempt succeeds, the second attempt's response is returned.
\<close>

theorem make_api_call_validation_failures:
  "(validate_request_params params = Some e \<longrightarrow>
      make_api_call net params p mr d t =
        \<lparr>outcome = Inl (err LLMError (p @ '': '' @ exn_msg e)), attempts_made = 0, sleeps = []\<rparr>) \<and>
   (resp_choices r = Some [] \<and> resp_model r \<noteq> None \<longrightarrow>
      validate_response r = Inl (err ValidationError ''Response contains no choices'')) \<and>
   (resp_choices r = Some (Some m # cs) \<and> msg_content m = Some [] \<and> msg_role m \<noteq> None \<and>
    validate_choices cs = Inr ms \<and> resp_model r \<noteq> None \<longrightarrow>
      validate_response r = Inl (err ValidationError ''Response message content is empty'')) \<and>
   (validate_request_params params = None \<and> 0 \<le> mr \<and>
    (\<forall>i. int i \<le> mr \<longrightarrow> (\<exists>r'. net i = Responds r' \<and> isl (validate_response r'))) \<longrightarrow>
      attempts_made (make_api_call net params p mr d t) = nat mr + 1 \<and>
      isl (outcome (make_api_call net params p mr d t)) \<and>
      sleeps (make_api_call net params p mr d t) = map (\<lambda>k. d * real k) [1..<nat mr + 1]) \<and>
   (validate_request_params params = None \<and> 1 \<le> mr \<and>
    net 0 = Responds r \<and> isl (validate_response r) \<and> run_attempt net p t 1 = Inr v \<longrightarrow>
      make_api_call net params p mr d t = \<lparr>outcome = Inr v, attempts_made = 2, sleeps = [d]\<rparr>)"
proof (intro conjI impI)
  assume "validate_request_params params = Some e"
  then show "make_api_call net params p mr d t =
        \<lparr>outcome = Inl (err LLMError (p @ '': '' @ exn_msg e)), attempts_made = 0, sleeps = []\<rparr>"
    by (rule make_api_call_invalid_request)
next
  assume "resp_choices r = Some [] \<and> resp_model r \<noteq> None"
  then show "validate_response r = Inl (err ValidationError ''Response contains no choices'')"
    by (simp add: validate_response_no_choices)
next
  assume "resp_choices r = Some (Some m # cs) \<and> msg_content m = Some [] \<and> msg_role m \<noteq> None \<and>
    validate_choices cs = Inr ms \<and> resp_model r \<noteq> None"
  then show "validate_response r = Inl (err ValidationError ''Response message content is empty'')"
    by (simp add: validate_response_empty_content)
next
  assume a: "validate_request_params params = None \<and> 0 \<le> mr \<and>
    (\<forall>i. int i \<le> mr \<longrightarrow> (\<exists>r'. net i = Responds r' \<and> isl (validate_response r')))"
  then have fails: "\<And>i. (0::nat) \<le> i \<Longrightarrow> int i \<le> mr \<Longrightarrow> isl (run_attempt net p t i)"
    using run_attempt_invalid_response by blast
  have start: "int (0::nat) \<le> mr + 1" using a by simp
  note loop = attempt_loop_all_fail [of 0 mr net p t d None "[]", OF fails start]
  have "0 \<le> mr" using a by simp
  then have nat: "nat (mr + 1) = nat mr + 1" by linarith
  from loop obtain e where e: "outcome (attempt_loop net p t mr d 0 None []) = Inl e"
    by (cases "outcome (attempt_loop net p t mr d 0 None [])") auto
  have call: "make_api_call net params p mr d t =
          (attempt_loop net p t mr d 0 None [])\<lparr>outcome := Inl (translate_error p e)\<rparr>"
    using a e by (simp add: make_api_call_def Let_def)
  show "attempts_made (make_api_call net params p mr d t) = nat mr + 1"
    using loop nat unfolding call by simp
  show "isl (outcome (make_api_call net params p mr d t))"
    unfolding call by simp
  show "sleeps (make_api_call net params p mr d t) = map (\<lambda>k. d * real k) [1..<nat mr + 1]"
    using loop nat unfolding call by simp
next
  assume a: "validate_request_params params = None \<and> 1 \<le> mr \<and>
    net 0 = Responds r \<and> isl (validate_response r) \<and> run_attempt net p t 1 = Inr v"
  then have first: "\<And>j. (0::nat) \<le> j \<Longrightarrow> j < 1 \<Longrightarrow> isl (run_attempt net p t j)"
    using run_attempt_invalid_response [of net 0 r p t] by simp
  have "attempt_loop net p t mr d 0 None [] =
           \<lparr>outcome = Inr v, attempts_made = 1 + 1,
            sleeps = [] @ map (\<lambda>k. d * real k) [0 + 1..<1 + 1]\<rparr>"
    using a by (intro attempt_loop_first_success first) simp_all
  then show "make_api_call net params p mr d t = \<lparr>outcome = Inr v, attempts_made = 2, sleeps = [d]\<rparr>"
    using a by (simp add: make_api_call_def Let_def)
qed

lemma always_invalid_fails:
  "\<forall>i. int i \<le> 1 \<longrightarrow> (\<exists>r'. always_invalid i = Responds r' \<and> isl (validate_response r'))"
  by (simp add: always_invalid_def validate_response_def no_choices_response_def)

theorem make_api_call_validation_failures_witness:
  "validate_request_params empty_messages_request
     = Some (err ValidationError ''Messages list cannot be empty'') \<and>
   make_api_call always_invalid empty_messages_request ''Plan creation failed'' 1 (1 / 2) ''30.0''
     = \<lparr>outcome = Inl (err LLMError ''Plan creation failed: Messages list cannot be empty''),
        attempts_made = 0, sleeps = []\<rparr> \<and>
   validate_response no_choices_response
     = Inl (err ValidationError ''Response contains no choices'') \<and>
   validate_response empty_content_response
     = Inl (err ValidationError ''Response message content is empty'') \<and>
   validate_request_params example_request = None \<and>
   attempts_made (make_api_call always_invalid example_request ''Plan creation failed'' 1 (1 / 2) ''30.0'') = 2 \<and>
   sleeps (make_api_call always_invalid example_request ''Plan creation failed'' 1 (1 / 2) ''30.0'') = [1 / 2] \<and>
   make_api_call invalid_then_valid example_request ''Plan creation failed'' 1 (1 / 2) ''30.0''
     = \<lparr>outcome = Inr \<lparr>choices = [\<lparr>content = ''1. Tag the release'', role = ''assistant''\<rparr>],
                       response_model = ''anthropic/claude-3.5-sonnet:beta'', usage = None\<rparr>,
        attempts_made = 2, sleeps = [1 / 2]\<rparr>"
proof -
  have h1: "validate_request_params empty_messages_request
     = Some (err ValidationError ''Messages list cannot be empty'')"
    by (simp add: validate_request_params_def missing_fields_def empty_messages_request_def)
  have h2: "resp_choices no_choices_response = Some [] \<and> resp_model no_choices_response \<noteq> None"
    by (simp add: no_choices_response_def)
  have h3: "resp_choices empty_content_response
              = Some (Some \<lparr>msg_role = Some ''assistant'', msg_content = Some []\<rparr> # []) \<and>
            msg_content \<lparr>msg_role = Some ''assistant'', msg_content = Some []\<rparr> = Some [] \<and>
            msg_role \<lparr>msg_role = Some ''assistant'', msg_content = Some []\<rparr> \<noteq> None \<and>
            validate_choices [] = Inr [] \<and> resp_model empty_content_response \<noteq> None"
    by (simp add: empty_content_response_def)
  have h4: "validate_request_params example_request = None"
    by (simp add: validate_request_params_def missing_fields_def example_request_def)
  have h5: "invalid_then_valid 0 = Responds no_choices_response \<and>
            isl (validate_response no_choices_response)"
    by (simp add: invalid_then_valid_def validate_response_def no_choices_response_def)
  have h6: "run_attempt invalid_then_valid ''Plan creation failed'' ''30.0'' 1
              = Inr \<lparr>choices = [\<lparr>content = ''1. Tag the release'', role = ''assistant''\<rparr>],
                       response_model = ''anthropic/claude-3.5-sonnet:beta'', usage = None\<rparr>"
    by (simp add: run_attempt_def invalid_then_valid_def validate_response_def valid_response_def)
  note a = make_api_call_validation_failures
      [of empty_messages_request "err ValidationError ''Messages list cannot be empty''"
          always_invalid "''Plan creation failed''" 1 "1 / 2" "''30.0''" no_choices_response]
  note b = make_api_call_validation_failures
      [of example_request _ always_invalid "''Plan creation failed''" 1 "1 / 2" "''30.0''"
          empty_content_response "\<lparr>msg_role = Some ''assistant'', msg_content = Some []\<rparr>" "[]" "[]"]
  note c = make_api_call_validation_failures
      [of example_request _ invalid_then_valid "''Plan creation failed''" 1 "1 / 2" "''30.0''"
          no_choices_response _ _ _
          "\<lparr>choices = [\<lparr>content = ''1. Tag the release'', role = ''assistant''\<rparr>],
            response_model = ''anthropic/claude-3.5-sonnet:beta'', usage = None\<rparr>"]
  show ?thesis
    using a b c h1 h2 h3 h4 h5 h6 always_invalid_fails
    by (simp add: err_def)
qed

text \<open>
  The claim as stated (no further attempt after a validation failure, and a
  \<open>ValidationError\<close> raised) fails with \<open>max_retries = 1\<close>: after a first response with
  no choices a second attempt is made, whose valid response is returned; and when the second
  response has no choices either, the exception that leaves \<^verbatim>\<open>_make_api_call\<close> is an
  \<open>LLMError\<close>.
\<close>

theorem make_api_call_retries_invalid_response_counterexample:
  "invalid_then_valid 0 = Responds no_choices_response \<and>
   validate_response no_choices_response
     = Inl (err ValidationError ''Response contains no choices'') \<and>
   make_api_call invalid_then_valid example_request ''Plan creation failed'' 1 (1 / 2) ''30.0''
     = \<lparr>outcome = Inr \<lparr>choices = [\<lparr>content = ''1. Tag the release'', role = ''assistant''\<rparr>],
                       response_model = ''anthropic/claude-3.5-sonnet:beta'', usage = None\<rparr>,
        attempts_made = 2, sleeps = [1 / 2]\<rparr> \<and>
   make_api_call always_invalid example_request ''Plan creation failed'' 1 (1 / 2) ''30.0''
     = \<lparr>outcome = Inl (err LLMError ''Plan creation failed: Response contains no choices''),
        attempts_made = 2, sleeps = [1 / 2]\<rparr>"
  by (simp add: make_api_call_def validate_request_params_def missing_fields_def example_request_def
      run_attempt_def invalid_then_valid_def always_invalid_def validate_response_def
      no_choices_response_def valid_response_def err_def Let_def translate_error_def)


end
